theory Spec2Isabelle
  imports Main "HOL-Library.Multiset" "HOL-Library.Product_Lexorder" "HOL-Library.AList"
begin

section \<open>Strings of the Python runtime\<close>

text \<open>
  The program is \<^verbatim>\<open>src/app.py\<close>, a Flask application that keeps patients and
  appointments in two module-level dictionaries.  A Python \<^verbatim>\<open>str\<close> is modelled as a
  \<^typ>\<open>string\<close>, a list of 8-bit characters read as the code points U+0000..U+00FF.
  On that range \<^verbatim>\<open>str.isspace\<close>, the regular-expression classes \<^verbatim>\<open>\s\<close> and \<^verbatim>\<open>\d\<close>,
  and \<^verbatim>\<open>str.lower\<close> are the following functions of the code point.
\<close>

definition code :: "char \<Rightarrow> nat" where
  "code c = of_char c"

text \<open>\<^verbatim>\<open>str.isspace\<close>: TAB..CR, FS..US, SPACE, NEL and NBSP.\<close>

definition isspace :: "char \<Rightarrow> bool" where
  "isspace c \<longleftrightarrow>
     (9 \<le> code c \<and> code c \<le> 13) \<or> (28 \<le> code c \<and> code c \<le> 32) \<or> code c = 133 \<or> code c = 160"

text \<open>\<^verbatim>\<open>\d\<close> and the decimal digits accepted by \<^verbatim>\<open>int\<close>: only 0..9 below U+0100.\<close>

definition isdigit :: "char \<Rightarrow> bool" where
  "isdigit c \<longleftrightarrow> 48 \<le> code c \<and> code c \<le> 57"

text \<open>\<^verbatim>\<open>str.lower\<close> on one character: A..Z and the upper-case letters U+00C0..U+00DE
  (without the multiplication sign U+00D7) move up by 32.\<close>

definition lower_char :: "char \<Rightarrow> char" where
  "lower_char c =
     (if (65 \<le> code c \<and> code c \<le> 90) \<or> (192 \<le> code c \<and> code c \<le> 222 \<and> code c \<noteq> 215)
      then char_of (code c + 32) else c)"

definition lower :: "string \<Rightarrow> string" where
  "lower s = map lower_char s"

text \<open>\<^verbatim>\<open>str.strip()\<close> without argument removes white space at both ends.\<close>

definition strip :: "string \<Rightarrow> string" where
  "strip s = rev (dropWhile isspace (rev (dropWhile isspace s)))"

subsection \<open>The built-in \<^verbatim>\<open>int\<close> on a string\<close>

text \<open>
  \<^verbatim>\<open>int(s)\<close> in base 10: white space around the literal is skipped (the C-level test
  \<^verbatim>\<open>Py_ISSPACE\<close> after non-ASCII white space has been rewritten to a blank, so FS..US
  do not count), then an optional sign, then decimal digits which may be separated by
  single underscores.  \<open>None\<close> stands for the \<^verbatim>\<open>ValueError\<close> that \<^verbatim>\<open>int\<close> raises.
  A literal with more digit characters than \<^verbatim>\<open>sys.get_int_max_str_digits()\<close>, 4300
  unless the interpreter is configured otherwise, is refused with \<^verbatim>\<open>ValueError\<close> as
  well; underscores, sign and white space do not count towards the limit.
\<close>

definition int_max_str_digits :: int where
  "int_max_str_digits = 4300"

definition int_space :: "char \<Rightarrow> bool" where
  "int_space c \<longleftrightarrow> (9 \<le> code c \<and> code c \<le> 13) \<or> code c = 32 \<or> code c = 133 \<or> code c = 160"

definition digit_or_underscore :: "char \<Rightarrow> bool" where
  "digit_or_underscore c \<longleftrightarrow> isdigit c \<or> c = CHR ''_''"

fun no_double_underscore :: "string \<Rightarrow> bool" where
  "no_double_underscore (a # b # r) =
     (\<not> (a = CHR ''_'' \<and> b = CHR ''_'') \<and> no_double_underscore (b # r))"
| "no_double_underscore _ = True"

definition valid_digits :: "string \<Rightarrow> bool" where
  "valid_digits b \<longleftrightarrow>
     b \<noteq> [] \<and> hd b \<noteq> CHR ''_'' \<and> last b \<noteq> CHR ''_'' \<and> no_double_underscore b"

definition decimal_value :: "string \<Rightarrow> int" where
  "decimal_value ds = foldl (\<lambda>acc c. 10 * acc + (int (code c) - 48)) 0 ds"

definition py_int :: "string \<Rightarrow> int option" where
  "py_int s =
     (let t = dropWhile int_space s;
          neg = (t \<noteq> [] \<and> hd t = CHR ''-'');
          u = (if t \<noteq> [] \<and> (hd t = CHR ''-'' \<or> hd t = CHR ''+'') then tl t else t);
          body = takeWhile digit_or_underscore u;
          rest = dropWhile digit_or_underscore u
      in if valid_digits body \<and> list_all int_space rest
            \<and> int (length (filter isdigit body)) \<le> int_max_str_digits
         then Some ((if neg then - 1 else 1) * decimal_value (filter isdigit body))
         else None)"

section \<open>\<^verbatim>\<open>datetime.strptime\<close> with the format of the program\<close>

text \<open>
  A naive \<^verbatim>\<open>datetime\<close> built by \<^verbatim>\<open>strptime\<close> from \<^verbatim>\<open>"%Y-%m-%d %H:%M"\<close> has second and
  microsecond 0, so it is the tuple (year, month, day, hour, minute); Python compares
  such values lexicographically, which is the order of the product type.
\<close>

type_synonym datetime = "int \<times> int \<times> int \<times> int \<times> int"

definition is_leap :: "int \<Rightarrow> bool" where
  "is_leap y \<longleftrightarrow> y mod 4 = 0 \<and> (y mod 100 \<noteq> 0 \<or> y mod 400 = 0)"

definition days_in_month :: "int \<Rightarrow> int \<Rightarrow> int" where
  "days_in_month y m =
     (if m = 2 then (if is_leap y then 29 else 28)
      else if m = 4 \<or> m = 6 \<or> m = 9 \<or> m = 11 then 30 else 31)"

text \<open>The constructor of \<^verbatim>\<open>datetime\<close> raises \<^verbatim>\<open>ValueError\<close> outside these ranges.\<close>

definition make_datetime :: "int \<Rightarrow> int \<Rightarrow> int \<Rightarrow> int \<Rightarrow> int \<Rightarrow> datetime option" where
  "make_datetime y m d h mi =
     (if 1 \<le> y \<and> y \<le> 9999 \<and> 1 \<le> m \<and> m \<le> 12 \<and> 1 \<le> d \<and> d \<le> days_in_month y m
         \<and> 0 \<le> h \<and> h \<le> 23 \<and> 0 \<le> mi \<and> mi \<le> 59
      then Some (y, m, d, h, mi) else None)"

text \<open>
  \<^verbatim>\<open>strptime\<close> compiles the format into the regular expression
  \<^verbatim>\<open>(?P<Y>\d\d\d\d)-(?P<m>1[0-2]|0[1-9]|[1-9])-(?P<d>3[0-1]|[1-2]\d|0[1-9]|[1-9]| [1-9])\s+(?P<H>2[0-3]|[0-1]\d|\d):(?P<M>[0-5]\d|\d)\<close>
  and applies \<^verbatim>\<open>match\<close>, a backtracking matcher anchored at the start.  Each piece is
  modelled as the list of its matches in the order the matcher tries them: the matched
  text with the rest of the input.
\<close>

definition in_range :: "char \<Rightarrow> char \<Rightarrow> char \<Rightarrow> bool" where
  "in_range lo hi c \<longleftrightarrow> code lo \<le> code c \<and> code c \<le> code hi"

definition rx_one :: "(char \<Rightarrow> bool) \<Rightarrow> string \<Rightarrow> (string \<times> string) list" where
  "rx_one p s = (case s of a # r \<Rightarrow> if p a then [([a], r)] else [] | [] \<Rightarrow> [])"

definition rx_two :: "(char \<Rightarrow> bool) \<Rightarrow> (char \<Rightarrow> bool) \<Rightarrow> string \<Rightarrow> (string \<times> string) list" where
  "rx_two p q s =
     (case s of a # b # r \<Rightarrow> if p a \<and> q b then [([a, b], r)] else [] | _ \<Rightarrow> [])"

definition rx_lit :: "char \<Rightarrow> string \<Rightarrow> string list" where
  "rx_lit c s = (case s of a # r \<Rightarrow> if a = c then [r] else [] | [] \<Rightarrow> [])"

text \<open>\<^verbatim>\<open>\s+\<close> is greedy: the longest run of white space first, then shorter ones.\<close>

definition rx_spaces :: "string \<Rightarrow> string list" where
  "rx_spaces s = map (\<lambda>n. drop n s) (rev [1..<Suc (length (takeWhile isspace s))])"

definition rx_Y :: "string \<Rightarrow> (string \<times> string) list" where
  "rx_Y s =
     (case s of a # b # c # d # r \<Rightarrow>
        if isdigit a \<and> isdigit b \<and> isdigit c \<and> isdigit d then [([a, b, c, d], r)] else []
      | _ \<Rightarrow> [])"

definition rx_m :: "string \<Rightarrow> (string \<times> string) list" where
  "rx_m s =
     rx_two (\<lambda>c. c = CHR ''1'') (in_range CHR ''0'' CHR ''2'') s
     @ rx_two (\<lambda>c. c = CHR ''0'') (in_range CHR ''1'' CHR ''9'') s
     @ rx_one (in_range CHR ''1'' CHR ''9'') s"

definition rx_d :: "string \<Rightarrow> (string \<times> string) list" where
  "rx_d s =
     rx_two (\<lambda>c. c = CHR ''3'') (in_range CHR ''0'' CHR ''1'') s
     @ rx_two (in_range CHR ''1'' CHR ''2'') isdigit s
     @ rx_two (\<lambda>c. c = CHR ''0'') (in_range CHR ''1'' CHR ''9'') s
     @ rx_one (in_range CHR ''1'' CHR ''9'') s
     @ rx_two (\<lambda>c. c = CHR '' '') (in_range CHR ''1'' CHR ''9'') s"

definition rx_H :: "string \<Rightarrow> (string \<times> string) list" where
  "rx_H s =
     rx_two (\<lambda>c. c = CHR ''2'') (in_range CHR ''0'' CHR ''3'') s
     @ rx_two (in_range CHR ''0'' CHR ''1'') isdigit s
     @ rx_one isdigit s"

definition rx_M :: "string \<Rightarrow> (string \<times> string) list" where
  "rx_M s = rx_two (in_range CHR ''0'' CHR ''5'') isdigit s @ rx_one isdigit s"

text \<open>All ways the whole expression matches a prefix, in the matcher's order.\<close>

definition format_matches :: "string \<Rightarrow> (string \<times> string \<times> string \<times> string \<times> string \<times> string) list" where
  "format_matches s =
     [(Y, m, d, H, M, r9).
        (Y, r1) \<leftarrow> rx_Y s, r2 \<leftarrow> rx_lit CHR ''-'' r1,
        (m, r3) \<leftarrow> rx_m r2, r4 \<leftarrow> rx_lit CHR ''-'' r3,
        (d, r5) \<leftarrow> rx_d r4, r6 \<leftarrow> rx_spaces r5,
        (H, r7) \<leftarrow> rx_H r6, r8 \<leftarrow> rx_lit CHR '':'' r7,
        (M, r9) \<leftarrow> rx_M r8]"

text \<open>
  \<^verbatim>\<open>strptime\<close> takes the first match, raises \<^verbatim>\<open>ValueError\<close> when there is none or when
  input remains after it, converts the groups with \<^verbatim>\<open>int\<close> and builds the value.
\<close>

definition strptime :: "string \<Rightarrow> datetime option" where
  "strptime data_string =
     (case format_matches data_string of
        [] \<Rightarrow> None
      | (Y, m, d, H, M, rest) # _ \<Rightarrow>
          if rest \<noteq> [] then None
          else (case (py_int Y, py_int m, py_int d, py_int H, py_int M) of
                  (Some y, Some mo, Some dd, Some h, Some mi) \<Rightarrow> make_datetime y mo dd h mi
                | _ \<Rightarrow> None))"

text \<open>\<^verbatim>\<open>parse_datetime(date_str, time_str)\<close>; \<open>None\<close> is the exception.\<close>

definition parse_datetime :: "string \<Rightarrow> string \<Rightarrow> datetime option" where
  "parse_datetime date_str time_str = strptime (date_str @ '' '' @ time_str)"

section \<open>The in-memory stores\<close>

text \<open>
  \<^verbatim>\<open>patients\<close> and \<^verbatim>\<open>appointments\<close> are dictionaries from an identifier to a dictionary
  with fixed keys.  Iteration over a Python dictionary follows insertion order, and the
  listing depends on it, so each store is an association list in insertion order:
  \<^const>\<open>AList.update\<close> is \<^verbatim>\<open>d[k] = v\<close> (a new key goes to the end, an existing key keeps
  its place), \<^const>\<open>AList.delete\<close> is \<^verbatim>\<open>del d[k]\<close>.  The two \<^verbatim>\<open>itertools.count(start=1)\<close>
  objects are the next value each will yield.
\<close>

record patient =
  nombre :: string
  documento :: string
  telefono :: string
  correo :: string

record appointment =
  paciente_id :: int
  fecha :: string
  hora :: string
  medico :: string
  estado :: string

record state =
  patients :: "(int \<times> patient) list"
  appointments :: "(int \<times> appointment) list"
  pid_counter :: int
  aid_counter :: int

definition init_state :: state where
  "init_state = \<lparr>patients = [], appointments = [], pid_counter = 1, aid_counter = 1\<rparr>"

text \<open>\<^verbatim>\<open>k in d\<close>.\<close>

definition contains :: "(int \<times> 'v) list \<Rightarrow> int \<Rightarrow> bool" where
  "contains d k \<longleftrightarrow> k \<in> set (map fst d)"

text \<open>
  The outcomes the handlers report with \<^verbatim>\<open>flash(..., "err")\<close> before they redirect, one
  constructor for each message, named as in the specification.
\<close>

datatype error =
    ValidationError
  | DuplicateDocumentError
  | InvalidPatientError
  | InvalidDateTimeError
  | MissingDoctorError
  | ConflictError
  | NotFoundError

section \<open>Utilities\<close>

text \<open>
  \<^verbatim>\<open>has_conflict(medico, fecha, hora, exclude_appointment_id=None)\<close>: the loop over
  \<^verbatim>\<open>appointments.items()\<close> with its early return.  The test
  \<^verbatim>\<open>exclude_appointment_id and a_id == exclude_appointment_id\<close> is false for \<^verbatim>\<open>None\<close>
  and for 0.
\<close>

fun has_conflict ::
  "(int \<times> appointment) list \<Rightarrow> string \<Rightarrow> string \<Rightarrow> string \<Rightarrow> int option \<Rightarrow> bool" where
  "has_conflict [] med fec hor exclude_appointment_id = False"
| "has_conflict ((a_id, a) # rest) med fec hor exclude_appointment_id =
     (if (case exclude_appointment_id of None \<Rightarrow> False | Some e \<Rightarrow> e \<noteq> 0 \<and> a_id = e)
      then has_conflict rest med fec hor exclude_appointment_id
      else if lower (strip (medico a)) = lower (strip med) \<and> fecha a = fec \<and> hora a = hor
      then True
      else has_conflict rest med fec hor exclude_appointment_id)"

text \<open>
  \<^verbatim>\<open>upcoming_sorted(aps)\<close> is \<^verbatim>\<open>sorted(aps.items(), key=keyfun)\<close>: the key of every item
  is computed first, an exception of \<^verbatim>\<open>parse_datetime\<close> ends the call (\<open>None\<close>), and the
  items are then sorted by key with a stable sort.
\<close>

definition keyfun :: "int \<times> appointment \<Rightarrow> datetime option" where
  "keyfun item = parse_datetime (fecha (snd item)) (hora (snd item))"

definition upcoming_sorted :: "(int \<times> appointment) list \<Rightarrow> (int \<times> appointment) list option" where
  "upcoming_sorted aps =
     (if list_all (\<lambda>item. keyfun item \<noteq> None) aps
      then Some (sort_key (\<lambda>item. the (keyfun item)) aps)
      else None)"

section \<open>Request handlers\<close>

text \<open>
  A handler reads its form fields with \<^verbatim>\<open>request.form.get(name, default)\<close>; a field of
  the request is \<open>None\<close> when the request does not carry it.  Rendering and redirects
  are left out: a handler returns what it reports and the new state.
\<close>

definition form_get :: "string option \<Rightarrow> string \<Rightarrow> string" where
  "form_get field dflt = (case field of None \<Rightarrow> dflt | Some v \<Rightarrow> v)"

record patient_form =
  form_nombre :: "string option"
  form_documento :: "string option"
  form_telefono :: "string option"
  form_correo :: "string option"

record appointment_form =
  form_paciente_id :: "string option"
  form_fecha :: "string option"
  form_hora :: "string option"
  form_medico :: "string option"

text \<open>The loop of \<^verbatim>\<open>create_patient\<close> over \<^verbatim>\<open>patients.values()\<close>.\<close>

fun document_exists :: "(int \<times> patient) list \<Rightarrow> string \<Rightarrow> bool" where
  "document_exists [] doc = False"
| "document_exists ((p_id, p) # rest) doc =
     (if lower (strip (documento p)) = lower doc then True else document_exists rest doc)"

definition create_patient :: "state \<Rightarrow> patient_form \<Rightarrow> (error + int) \<times> state" where
  "create_patient s f =
     (let nom = strip (form_get (form_nombre f) []);
          doc = strip (form_get (form_documento f) []);
          tel = strip (form_get (form_telefono f) []);
          cor = strip (form_get (form_correo f) [])
      in if nom = [] \<or> doc = [] \<or> tel = [] \<or> cor = [] then (Inl ValidationError, s)
         else if document_exists (patients s) doc then (Inl DuplicateDocumentError, s)
         else let p_id = pid_counter s
              in (Inr p_id,
                  s\<lparr>pid_counter := p_id + 1,
                    patients := AList.update p_id
                      \<lparr>nombre = nom, documento = doc, telefono = tel, correo = cor\<rparr>
                      (patients s)\<rparr>))"

text \<open>The \<^verbatim>\<open>try: int(...) except ValueError: 0\<close> at the head of \<^verbatim>\<open>create_appointment\<close>.\<close>

definition coerce_paciente_id :: "string option \<Rightarrow> int" where
  "coerce_paciente_id field = (case py_int (form_get field ''0'') of None \<Rightarrow> 0 | Some n \<Rightarrow> n)"

definition create_appointment :: "state \<Rightarrow> appointment_form \<Rightarrow> (error + int) \<times> state" where
  "create_appointment s f =
     (let pac = coerce_paciente_id (form_paciente_id f);
          fec = strip (form_get (form_fecha f) []);
          hor = strip (form_get (form_hora f) []);
          med = strip (form_get (form_medico f) [])
      in if \<not> contains (patients s) pac then (Inl InvalidPatientError, s)
         else if parse_datetime fec hor = None then (Inl InvalidDateTimeError, s)
         else if med = [] then (Inl MissingDoctorError, s)
         else if has_conflict (appointments s) med fec hor None then (Inl ConflictError, s)
         else let a_id = aid_counter s
              in (Inr a_id,
                  s\<lparr>aid_counter := a_id + 1,
                    appointments := AList.update a_id
                      \<lparr>paciente_id = pac, fecha = fec, hora = hor, medico = med,
                       estado = ''Programada''\<rparr>
                      (appointments s)\<rparr>))"

definition cancel_appointment :: "state \<Rightarrow> int \<Rightarrow> (error + unit) \<times> state" where
  "cancel_appointment s appointment_id =
     (if \<not> contains (appointments s) appointment_id then (Inl NotFoundError, s)
      else (Inr (), s\<lparr>appointments := AList.delete appointment_id (appointments s)\<rparr>))"

text \<open>
  \<^verbatim>\<open>home\<close>: the list \<^verbatim>\<open>ordered\<close> handed to the template, for the query argument
  \<^verbatim>\<open>medico\<close> (\<open>None\<close> when absent).  \<open>None\<close> as result is the exception of the sort key.
\<close>

definition home :: "state \<Rightarrow> string option \<Rightarrow> (int \<times> appointment) list option" where
  "home s medico_arg =
     (let medico_filter = strip (form_get medico_arg [])
      in case upcoming_sorted (appointments s) of
           None \<Rightarrow> None
         | Some ordered \<Rightarrow>
             if medico_filter \<noteq> []
             then Some (filter (\<lambda>(i, a). lower (strip (medico a)) = lower (strip medico_filter)) ordered)
             else Some ordered)"

text \<open>\<^verbatim>\<open>seed_demo\<close>, which the main block runs once: two sample patients when the store is
  empty.  It returns the identifiers it drew.\<close>

definition seed_demo :: "state \<Rightarrow> int list \<times> state" where
  "seed_demo s =
     (if patients s = []
      then let p1 = pid_counter s; p2 = p1 + 1
           in ([p1, p2],
               s\<lparr>pid_counter := p2 + 1,
                 patients := AList.update p2
                   \<lparr>nombre = ''Ana Ruiz'', documento = ''CC-1002'',
                    telefono = ''3000000002'', correo = ''ana@example.com''\<rparr>
                   (AList.update p1
                     \<lparr>nombre = ''Juan P'' @ [CHR 0xE9] @ ''rez'', documento = ''CC-1001'',
                      telefono = ''3000000001'', correo = ''juan@example.com''\<rparr>
                     (patients s))\<rparr>)
      else ([], s))"

section \<open>Runs of the program\<close>

text \<open>
  The operations that change the stores, and what each reports.  A run applies a list
  of operations from a state; the states reachable by the program are the results of
  runs from \<^const>\<open>init_state\<close>.
\<close>

datatype op = Register patient_form | Book appointment_form | Cancel int | Seed

datatype outcome =
    Registered "error + int"
  | Booked "error + int"
  | Cancelled "error + unit"
  | Seeded "int list"

fun step :: "state \<Rightarrow> op \<Rightarrow> outcome \<times> state" where
  "step s (Register f) = (Registered (fst (create_patient s f)), snd (create_patient s f))"
| "step s (Book f) = (Booked (fst (create_appointment s f)), snd (create_appointment s f))"
| "step s (Cancel i) = (Cancelled (fst (cancel_appointment s i)), snd (cancel_appointment s i))"
| "step s Seed = (Seeded (fst (seed_demo s)), snd (seed_demo s))"

fun exec :: "state \<Rightarrow> op list \<Rightarrow> state" where
  "exec s [] = s"
| "exec s (x # xs) = exec (snd (step s x)) xs"

fun trace :: "state \<Rightarrow> op list \<Rightarrow> outcome list" where
  "trace s [] = []"
| "trace s (x # xs) = fst (step s x) # trace (snd (step s x)) xs"

text \<open>The identifiers a run hands out, in order.\<close>

fun patient_ids :: "outcome \<Rightarrow> int list" where
  "patient_ids (Registered (Inr i)) = [i]"
| "patient_ids (Seeded ids) = ids"
| "patient_ids _ = []"

fun appointment_ids :: "outcome \<Rightarrow> int list" where
  "appointment_ids (Booked (Inr i)) = [i]"
| "appointment_ids _ = []"

section \<open>Invariants of the stores and a sample run\<close>

text \<open>The keys of a store are distinct, start at 1 and lie below its counter, which is
  at least 1.\<close>

definition ids_below :: "(int \<times> 'v) list \<Rightarrow> int \<Rightarrow> bool" where
  "ids_below d c \<longleftrightarrow>
     1 \<le> c \<and> distinct (map fst d) \<and> (\<forall>k \<in> set (map fst d). 1 \<le> k \<and> k < c)"

definition ids_ok :: "state \<Rightarrow> bool" where
  "ids_ok s \<longleftrightarrow>
     ids_below (patients s) (pid_counter s) \<and> ids_below (appointments s) (aid_counter s)"

text \<open>Two stored appointments with different identifiers never have the same doctor
  (trimmed and lower-cased), date and time.\<close>

definition no_conflicts :: "(int \<times> appointment) list \<Rightarrow> bool" where
  "no_conflicts aps \<longleftrightarrow>
     (\<forall>(i, a) \<in> set aps. \<forall>(j, b) \<in> set aps.
        i \<noteq> j \<longrightarrow>
        \<not> (lower (strip (medico a)) = lower (strip (medico b))
           \<and> fecha a = fecha b \<and> hora a = hora b))"

text \<open>Every stored date and time is accepted by \<^const>\<open>parse_datetime\<close>.\<close>

definition all_parse :: "(int \<times> appointment) list \<Rightarrow> bool" where
  "all_parse aps \<longleftrightarrow> list_all (\<lambda>item. keyfun item \<noteq> None) aps"

definition all_programada :: "(int \<times> appointment) list \<Rightarrow> bool" where
  "all_programada aps \<longleftrightarrow> list_all (\<lambda>item. estado (snd item) = ''Programada'') aps"

text \<open>
  A sample run: the seed patients, a booking, the same slot again with the doctor
  written differently (refused), and an earlier slot of the same day.
\<close>

definition sample_form :: "string \<Rightarrow> string \<Rightarrow> string \<Rightarrow> string \<Rightarrow> appointment_form" where
  "sample_form p d h m =
     \<lparr>form_paciente_id = Some p, form_fecha = Some d, form_hora = Some h, form_medico = Some m\<rparr>"

definition sample_ops :: "op list" where
  "sample_ops =
     [Seed,
      Book (sample_form ''1'' ''2025-03-10'' ''09:00'' ''Dr. Lopez''),
      Book (sample_form ''1'' ''2025-03-10'' ''09:00'' ''  dr. LOPEZ ''),
      Book (sample_form ''1'' ''2025-03-10'' ''08:00'' ''Dr. Lopez'')]"

text \<open>A numeral of 4301 digits: 4300 zeros and a one.\<close>

definition oversize_numeral :: string where
  "oversize_numeral = replicate 4300 CHR ''0'' @ ''1''"

definition sample_patient_form :: "string \<Rightarrow> string \<Rightarrow> string \<Rightarrow> string \<Rightarrow> patient_form" where
  "sample_patient_form n d t c =
     \<lparr>form_nombre = Some n, form_documento = Some d, form_telefono = Some t, form_correo = Some c\<rparr>"

definition sample_appointment :: "string \<Rightarrow> string \<Rightarrow> string \<Rightarrow> appointment" where
  "sample_appointment d h m =
     \<lparr>paciente_id = 1, fecha = d, hora = h, medico = m, estado = ''Programada''\<rparr>"

text \<open>
  A state with one patient and three appointments; the first and the third fall on the
  same instant, written differently.  It is the state after registering the patient and
  booking the three slots.
\<close>

definition sample_state :: state where
  "sample_state =
     \<lparr>patients =
        [(1, \<lparr>nombre = ''Ana Ruiz'', documento = ''CC-1002'', telefono = ''3000000002'',
              correo = ''ana@example.com''\<rparr>)],
      appointments =
        [(1, sample_appointment ''2025-03-10'' ''09:00'' ''Dr. Lopez''),
         (2, sample_appointment ''2025-03-10'' ''08:00'' ''Dra. Ramirez''),
         (3, sample_appointment ''2025-3-10'' ''9:00'' ''Dra. Ramirez'')],
      pid_counter = 2, aid_counter = 4\<rparr>"

section \<open>Facts about strings and association lists\<close>

lemma dropWhile_rev_head:
  assumes "xs \<noteq> []" and "\<not> P (hd xs)"
  shows "dropWhile P (rev (dropWhile P (rev xs))) = rev (dropWhile P (rev xs))"
proof -
  from assms obtain x xs' where xs: "xs = x # xs'" and nP: "\<not> P x"
    by (cases xs) auto
  have "dropWhile P (rev xs) = dropWhile P (rev xs') @ [x]"
    using nP by (simp add: xs dropWhile_append3)
  then show ?thesis using nP by simp
qed

lemma dropWhile_strip: "dropWhile isspace (strip s) = strip s"
proof (cases "dropWhile isspace s = []")
  case True
  show ?thesis unfolding strip_def True by simp
next
  case False
  then have "\<not> isspace (hd (dropWhile isspace s))" by (rule hd_dropWhile)
  with False show ?thesis unfolding strip_def by (rule dropWhile_rev_head)
qed

text \<open>Trimming twice is trimming once.\<close>

lemma strip_strip: "strip (strip s) = strip s"
proof -
  have "strip (strip s) = rev (dropWhile isspace (rev (strip s)))"
    unfolding strip_def[of "strip s"] by (simp only: dropWhile_strip)
  also have "\<dots> = strip s" by (simp add: strip_def)
  finally show ?thesis .
qed

text \<open>\<^verbatim>\<open>int\<close> refuses a numeral of more than 4300 digits, leading zeros included.\<close>

lemma isdigit_not_int_space: "isdigit c \<Longrightarrow> \<not> int_space c"
  by (auto simp: isdigit_def int_space_def)

lemma isdigit_not_sign: "isdigit c \<Longrightarrow> c \<noteq> CHR ''-'' \<and> c \<noteq> CHR ''+''"
  by (auto simp: isdigit_def code_def)

lemma py_int_too_many_digits:
  assumes d: "list_all isdigit ds" and l: "int_max_str_digits < int (length ds)"
  shows "py_int ds = None"
proof -
  have "0 \<le> int_max_str_digits" by (simp add: int_max_str_digits_def)
  with l obtain c r where ds: "ds = c # r" by (cases ds) auto
  with d have c: "isdigit c" by simp
  have 1: "dropWhile int_space ds = ds"
    using c by (simp add: ds isdigit_not_int_space)
  have 2: "takeWhile digit_or_underscore ds = ds"
    using d by (auto simp: list_all_iff digit_or_underscore_def)
  have 3: "filter isdigit ds = ds"
    using d by (auto simp: list_all_iff)
  show ?thesis
    unfolding py_int_def Let_def 1
    using c l isdigit_not_sign[OF c] by (simp add: ds[symmetric] 2 3) (simp add: ds)
qed

lemma list_all_replicate: "P c \<Longrightarrow> list_all P (replicate n c)"
  by (induction n) auto

lemma py_int_oversize: "py_int oversize_numeral = None"
proof (rule py_int_too_many_digits)
  have z: "list_all isdigit (replicate 4300 CHR ''0'')"
    by (rule list_all_replicate) (simp add: isdigit_def code_def)
  have o: "list_all isdigit ''1''"
    by (simp add: isdigit_def code_def)
  show "list_all isdigit oversize_numeral"
    unfolding oversize_numeral_def list_all_append using z o by (rule conjI)
  have "length oversize_numeral = 4300 + 1"
    unfolding oversize_numeral_def by (simp only: length_append length_replicate) simp
  then show "int_max_str_digits < int (length oversize_numeral)"
    by (simp add: int_max_str_digits_def)
qed

text \<open>The two loops with early return are existence tests.\<close>

lemma has_conflict_iff:
  "has_conflict aps med fec hor None \<longleftrightarrow>
     (\<exists>(i, a) \<in> set aps. lower (strip (medico a)) = lower (strip med) \<and> fecha a = fec \<and> hora a = hor)"
  by (induction aps) auto

lemma document_exists_iff:
  "document_exists ps doc \<longleftrightarrow> (\<exists>(i, p) \<in> set ps. lower (strip (documento p)) = lower doc)"
  by (induction ps) auto

lemma update_fresh: "k \<notin> set (map fst d) \<Longrightarrow> AList.update k v d = d @ [(k, v)]"
  by (induction d) auto

lemma delete_filter: "AList.delete i d = filter (\<lambda>(k, a). k \<noteq> i) d"
  by (induction d) auto

lemma not_contains_delete: "\<not> contains (AList.delete k d) k"
  using delete_notin_dom[of k d] by (simp add: contains_def)

lemma delete_distinct_mset:
  "distinct (map fst d) \<Longrightarrow> (k, v) \<in> set d \<Longrightarrow> mset d = add_mset (k, v) (mset (AList.delete k d))"
proof (induction d)
  case Nil
  then show ?case by simp
next
  case (Cons x d)
  show ?case
  proof (cases "fst x = k")
    case True
    with Cons.prems have "x = (k, v)" by (cases x) (auto simp: image_iff)
    moreover from True Cons.prems have "k \<notin> fst ` set d" by auto
    ultimately show ?thesis by simp
  next
    case False
    with Cons show ?thesis by (cases x) auto
  qed
qed

lemma set_update_subset: "set (AList.update k v d) \<subseteq> insert (k, v) (set d)"
  by (induction d) auto

lemma set_delete_subset: "set (AList.delete k d) \<subseteq> set d"
  by (induction d) auto

lemma list_all_update: "list_all P d \<Longrightarrow> P (k, v) \<Longrightarrow> list_all P (AList.update k v d)"
  by (induction d) auto

lemma list_all_delete: "list_all P d \<Longrightarrow> list_all P (AList.delete k d)"
  by (induction d) auto

lemma map_of_key: "map_of d k = Some v \<Longrightarrow> k \<in> set (map fst d)"
  by (induction d) (auto split: if_splits)

text \<open>A listing only shows identifiers of the store.\<close>

lemma home_no_key:
  assumes "home s m = Some ys" and "\<not> contains (appointments s) i"
  shows "i \<notin> set (map fst ys)"
proof -
  from assms(1) obtain ordered where o: "upcoming_sorted (appointments s) = Some ordered"
    and sub: "set ys \<subseteq> set ordered"
    by (auto simp: home_def Let_def split: option.splits if_splits)
  from o have "set ordered = set (appointments s)"
    by (auto simp: upcoming_sorted_def split: if_splits)
  with sub assms(2) show ?thesis by (auto simp: contains_def)
qed

section \<open>What every run preserves\<close>

lemma exec_invariant:
  assumes "P s" and "\<And>s x. P s \<Longrightarrow> P (snd (step s x))"
  shows "P (exec s ops)"
  using assms(1) by (induction ops arbitrary: s) (simp_all add: assms(2))

subsection \<open>Identifiers\<close>

lemma ids_below_update: "ids_below d c \<Longrightarrow> ids_below (AList.update c v d) (c + 1)"
  by (auto simp: ids_below_def update_keys)

lemma ids_below_delete: "ids_below d c \<Longrightarrow> ids_below (AList.delete k d) c"
  by (auto simp: ids_below_def delete_keys distinct_removeAll)

lemma not_contains_zero: "ids_below d c \<Longrightarrow> \<not> contains d 0"
  by (auto simp: ids_below_def contains_def)

lemma ids_ok_create_patient: "ids_ok s \<Longrightarrow> ids_ok (snd (create_patient s f))"
  by (auto simp: ids_ok_def create_patient_def Let_def ids_below_update)

lemma ids_ok_create_appointment: "ids_ok s \<Longrightarrow> ids_ok (snd (create_appointment s f))"
  by (auto simp: ids_ok_def create_appointment_def Let_def ids_below_update)

lemma ids_ok_cancel_appointment: "ids_ok s \<Longrightarrow> ids_ok (snd (cancel_appointment s i))"
  by (auto simp: ids_ok_def cancel_appointment_def ids_below_delete)

lemma ids_ok_seed_demo: "ids_ok s \<Longrightarrow> ids_ok (snd (seed_demo s))"
  by (auto simp: ids_ok_def seed_demo_def Let_def ids_below_def)

lemma ids_ok_step: "ids_ok s \<Longrightarrow> ids_ok (snd (step s x))"
  by (cases x) (simp_all add: ids_ok_create_patient ids_ok_create_appointment
      ids_ok_cancel_appointment ids_ok_seed_demo)

lemma ids_ok_init: "ids_ok init_state"
  by (simp add: ids_ok_def ids_below_def init_state_def)

lemma ids_ok_exec: "ids_ok (exec init_state ops)"
  using ids_ok_init ids_ok_step by (rule exec_invariant)

text \<open>A step never rewrites a stored appointment: its key keeps the record or leaves.\<close>

lemma step_keeps_records:
  assumes "ids_ok s" and "map_of (appointments s) i = Some a"
    and "map_of (appointments (snd (step s x))) i = Some a'"
  shows "a' = a"
proof (cases x)
  case (Register f)
  with assms show ?thesis by (auto simp: create_patient_def Let_def split: if_splits)
next
  case Seed
  with assms show ?thesis by (auto simp: seed_demo_def Let_def split: if_splits)
next
  case (Cancel k)
  with assms show ?thesis
    by (auto simp: cancel_appointment_def delete_conv' split: if_splits)
next
  case (Book f)
  from assms(1,2) have "i < aid_counter s"
    using map_of_key[of "appointments s" i a] by (auto simp: ids_ok_def ids_below_def)
  with assms Book show ?thesis
    by (auto simp: create_appointment_def Let_def update_conv' split: if_splits)
qed

subsection \<open>The counters along a run\<close>

lemma upto_join: "(i::int) \<le> j \<Longrightarrow> j \<le> k \<Longrightarrow> [i..j - 1] @ [j..k - 1] = [i..k - 1]"
proof (cases "j = k")
  case True
  then show ?thesis by simp
next
  case False
  assume "i \<le> j" "j \<le> k"
  with False have "i \<le> j" "j \<le> k - 1" by auto
  then show ?thesis by (rule upto_split1[symmetric])
qed

lemma step_patient_ids:
  "patient_ids (fst (step s x)) = [pid_counter s..pid_counter (snd (step s x)) - 1]"
  by (cases x)
    (auto simp: create_patient_def create_appointment_def cancel_appointment_def seed_demo_def
      Let_def upto_rec1)

lemma step_appointment_ids:
  "appointment_ids (fst (step s x)) = [aid_counter s..aid_counter (snd (step s x)) - 1]"
  by (cases x)
    (auto simp: create_patient_def create_appointment_def cancel_appointment_def seed_demo_def
      Let_def)

lemma step_counters_mono:
  "pid_counter s \<le> pid_counter (snd (step s x)) \<and> aid_counter s \<le> aid_counter (snd (step s x))"
  by (cases x)
    (auto simp: create_patient_def create_appointment_def cancel_appointment_def seed_demo_def
      Let_def)

lemma exec_counters_mono:
  "pid_counter s \<le> pid_counter (exec s ops) \<and> aid_counter s \<le> aid_counter (exec s ops)"
proof (induction ops arbitrary: s)
  case Nil
  show ?case by simp
next
  case (Cons x ops)
  from step_counters_mono[of s x] Cons[of "snd (step s x)"] show ?case by simp
qed

lemma trace_patient_ids:
  "concat (map patient_ids (trace s ops)) = [pid_counter s..pid_counter (exec s ops) - 1]"
proof (induction ops arbitrary: s)
  case Nil
  show ?case by simp
next
  case (Cons x ops)
  have "concat (map patient_ids (trace s (x # ops)))
      = [pid_counter s..pid_counter (snd (step s x)) - 1]
        @ [pid_counter (snd (step s x))..pid_counter (exec (snd (step s x)) ops) - 1]"
    by (simp add: step_patient_ids Cons)
  also have "\<dots> = [pid_counter s..pid_counter (exec (snd (step s x)) ops) - 1]"
    using step_counters_mono[of s x] exec_counters_mono[of "snd (step s x)" ops]
    by (intro upto_join) simp_all
  finally show ?case by simp
qed

lemma trace_appointment_ids:
  "concat (map appointment_ids (trace s ops)) = [aid_counter s..aid_counter (exec s ops) - 1]"
proof (induction ops arbitrary: s)
  case Nil
  show ?case by simp
next
  case (Cons x ops)
  have "concat (map appointment_ids (trace s (x # ops)))
      = [aid_counter s..aid_counter (snd (step s x)) - 1]
        @ [aid_counter (snd (step s x))..aid_counter (exec (snd (step s x)) ops) - 1]"
    by (simp add: step_appointment_ids Cons)
  also have "\<dots> = [aid_counter s..aid_counter (exec (snd (step s x)) ops) - 1]"
    using step_counters_mono[of s x] exec_counters_mono[of "snd (step s x)" ops]
    by (intro upto_join) simp_all
  finally show ?case by simp
qed

subsection \<open>Conflicts, dates and status\<close>

lemma no_conflicts_mono: "no_conflicts ys \<Longrightarrow> set xs \<subseteq> set ys \<Longrightarrow> no_conflicts xs"
  unfolding no_conflicts_def by blast

lemma no_conflicts_update:
  assumes "no_conflicts aps" and "\<not> has_conflict aps (medico a) (fecha a) (hora a) None"
  shows "no_conflicts (AList.update k a aps)"
proof -
  have "no_conflicts ((k, a) # aps)"
    using assms unfolding no_conflicts_def has_conflict_iff by (auto; metis)
  moreover have "set (AList.update k a aps) \<subseteq> set ((k, a) # aps)"
    using set_update_subset[of k a aps] by simp
  ultimately show ?thesis by (rule no_conflicts_mono)
qed

lemma no_conflicts_create_appointment:
  "no_conflicts (appointments s) \<Longrightarrow> no_conflicts (appointments (snd (create_appointment s f)))"
  by (auto simp: create_appointment_def Let_def intro!: no_conflicts_update)

lemma no_conflicts_step:
  "no_conflicts (appointments s) \<Longrightarrow> no_conflicts (appointments (snd (step s x)))"
proof (cases x)
  case (Cancel i)
  assume "no_conflicts (appointments s)"
  then show ?thesis using set_delete_subset[of i "appointments s"]
    by (auto simp: Cancel cancel_appointment_def intro: no_conflicts_mono)
qed (simp_all add: no_conflicts_create_appointment create_patient_def seed_demo_def Let_def)

lemma no_conflicts_exec: "no_conflicts (appointments (exec init_state ops))"
proof (rule exec_invariant[where P = "\<lambda>s. no_conflicts (appointments s)"])
  show "no_conflicts (appointments init_state)"
    by (simp add: no_conflicts_def init_state_def)
qed (rule no_conflicts_step)

lemma all_parse_create_appointment:
  "all_parse (appointments s) \<Longrightarrow> all_parse (appointments (snd (create_appointment s f)))"
  unfolding all_parse_def
  by (auto simp: create_appointment_def Let_def keyfun_def intro!: list_all_update)

lemma all_parse_step: "all_parse (appointments s) \<Longrightarrow> all_parse (appointments (snd (step s x)))"
proof (cases x)
  case (Cancel i)
  assume "all_parse (appointments s)"
  then show ?thesis
    by (auto simp: Cancel cancel_appointment_def all_parse_def intro: list_all_delete)
qed (simp_all add: all_parse_create_appointment create_patient_def seed_demo_def Let_def)

lemma all_parse_exec: "all_parse (appointments (exec init_state ops))"
proof (rule exec_invariant[where P = "\<lambda>s. all_parse (appointments s)"])
  show "all_parse (appointments init_state)"
    by (simp add: all_parse_def init_state_def)
qed (rule all_parse_step)

lemma all_programada_create_appointment:
  "all_programada (appointments s) \<Longrightarrow> all_programada (appointments (snd (create_appointment s f)))"
  unfolding all_programada_def
  by (auto simp: create_appointment_def Let_def intro!: list_all_update)

lemma all_programada_step:
  "all_programada (appointments s) \<Longrightarrow> all_programada (appointments (snd (step s x)))"
proof (cases x)
  case (Cancel i)
  assume "all_programada (appointments s)"
  then show ?thesis
    by (auto simp: Cancel cancel_appointment_def all_programada_def intro: list_all_delete)
qed (simp_all add: all_programada_create_appointment create_patient_def seed_demo_def Let_def)

lemma all_programada_exec: "all_programada (appointments (exec init_state ops))"
proof (rule exec_invariant[where P = "\<lambda>s. all_programada (appointments s)"])
  show "all_programada (appointments init_state)"
    by (simp add: all_programada_def init_state_def)
qed (rule all_programada_step)

section \<open>The listing\<close>

lemma upcoming_sorted_Some:
  "all_parse aps \<Longrightarrow> upcoming_sorted aps = Some (sort_key (\<lambda>item. the (keyfun item)) aps)"
  by (simp add: upcoming_sorted_def all_parse_def)




section \<open>The sample run and sample state, evaluated\<close>

lemma sample_appointments:
  "appointments (exec init_state sample_ops) =
     [(1, sample_appointment ''2025-03-10'' ''09:00'' ''Dr. Lopez''),
      (2, sample_appointment ''2025-03-10'' ''08:00'' ''Dr. Lopez'')]"
  by code_simp

lemma sample_trace:
  "trace init_state sample_ops =
     [Seeded [1, 2], Booked (Inr 1), Booked (Inl ConflictError), Booked (Inr 2)]"
  by code_simp

text \<open>The sample state is the result of a run.\<close>

lemma sample_state_reachable:
  "exec init_state
     [Register (sample_patient_form ''Ana Ruiz'' ''CC-1002'' ''3000000002'' ''ana@example.com''),
      Book (sample_form ''1'' ''2025-03-10'' ''09:00'' ''Dr. Lopez''),
      Book (sample_form ''1'' ''2025-03-10'' ''08:00'' ''Dra. Ramirez''),
      Book (sample_form ''1'' ''2025-3-10'' ''9:00'' ''Dra. Ramirez'')]
   = sample_state"
  by code_simp

lemma py_int_zero: "py_int ''0'' = Some 0"
  by code_simp

text \<open>
  What \<^const>\<open>parse_datetime\<close> accepts, on inputs where the library is easy to get
  wrong: fields of one digit, a day that the month does not have, a minute above 59
  (the expression matches the first digit and input remains), year 0, and a date and
  time that only parse together.
\<close>

lemma parse_datetime_examples:
  "parse_datetime ''2025-03-10'' ''09:00'' = Some (2025, 3, 10, 9, 0)
   \<and> parse_datetime ''2025-3-1'' ''9:5'' = Some (2025, 3, 1, 9, 5)
   \<and> parse_datetime ''2024-02-29'' ''10:00'' = Some (2024, 2, 29, 10, 0)
   \<and> parse_datetime ''2025-02-29'' ''10:00'' = None
   \<and> parse_datetime ''2025-03-10'' ''09:61'' = None
   \<and> parse_datetime ''2025-03-10'' ''24:00'' = None
   \<and> parse_datetime ''0000-01-01'' ''00:00'' = None
   \<and> parse_datetime ''2025-03-10'' [] = None
   \<and> parse_datetime ''2025-03-'' ''5 09:00'' = Some (2025, 3, 5, 9, 0)"
  by code_simp

section \<open>No double booking\<close>

text \<open>
  Claim C1.  In the state after any sequence of operations from the empty stores
  (registrations, bookings, cancellations and the seeding of the main block), the
  appointment store has distinct identifiers, and two stored appointments with different
  identifiers never agree on all of: doctor name after trimming and lower-casing, date
  string, time string.
\<close>

theorem reachable_no_double_booking:
  "distinct (map fst (appointments (exec init_state ops)))
   \<and> (\<forall>i a j b.
        (i, a) \<in> set (appointments (exec init_state ops))
        \<and> (j, b) \<in> set (appointments (exec init_state ops)) \<and> i \<noteq> j
        \<longrightarrow> \<not> (lower (strip (medico a)) = lower (strip (medico b))
               \<and> fecha a = fecha b \<and> hora a = hora b))"
proof -
  have "distinct (map fst (appointments (exec init_state ops)))"
    using ids_ok_exec[of ops] by (simp add: ids_ok_def ids_below_def)
  moreover have "no_conflicts (appointments (exec init_state ops))"
    by (rule no_conflicts_exec)
  ultimately show ?thesis unfolding no_conflicts_def by blast
qed

theorem reachable_no_double_booking_witness:
  "(1, sample_appointment ''2025-03-10'' ''09:00'' ''Dr. Lopez'')
     \<in> set (appointments (exec init_state sample_ops))
   \<and> (2, sample_appointment ''2025-03-10'' ''08:00'' ''Dr. Lopez'')
     \<in> set (appointments (exec init_state sample_ops))
   \<and> (1::int) \<noteq> 2
   \<and> \<not> (lower (strip (medico (sample_appointment ''2025-03-10'' ''09:00'' ''Dr. Lopez'')))
          = lower (strip (medico (sample_appointment ''2025-03-10'' ''08:00'' ''Dr. Lopez'')))
        \<and> fecha (sample_appointment ''2025-03-10'' ''09:00'' ''Dr. Lopez'')
          = fecha (sample_appointment ''2025-03-10'' ''08:00'' ''Dr. Lopez'')
        \<and> hora (sample_appointment ''2025-03-10'' ''09:00'' ''Dr. Lopez'')
          = hora (sample_appointment ''2025-03-10'' ''08:00'' ''Dr. Lopez''))"
proof -
  have m1: "(1, sample_appointment ''2025-03-10'' ''09:00'' ''Dr. Lopez'')
      \<in> set (appointments (exec init_state sample_ops))"
    by (simp add: sample_appointments)
  have m2: "(2, sample_appointment ''2025-03-10'' ''08:00'' ''Dr. Lopez'')
      \<in> set (appointments (exec init_state sample_ops))"
    by (simp add: sample_appointments)
  have ne: "(1::int) \<noteq> 2" by simp
  from reachable_no_double_booking[of sample_ops] m1 m2 ne show ?thesis by blast
qed

section \<open>Booking\<close>

text \<open>
  Claim C2.  \<^verbatim>\<open>create_appointment\<close> checks in this order, on the trimmed fields: the
  patient identifier (after the coercion of the handler, which turns a missing field
  and every string that \<^verbatim>\<open>int\<close> refuses into 0) is not a key of the patient
  store: \<open>InvalidPatientError\<close>; otherwise date and time are rejected by
  \<^const>\<open>parse_datetime\<close>: \<open>InvalidDateTimeError\<close>; otherwise the doctor is empty after
  trimming: \<open>MissingDoctorError\<close>; otherwise some stored appointment has the same doctor
  after trimming and lower-casing and the same date and time strings: \<open>ConflictError\<close>;
  otherwise the booking succeeds.  Whenever it reports an error the state, and with it
  the appointment store, is returned unchanged.
\<close>

theorem create_appointment_validation_order:
  "(let pac = coerce_paciente_id (form_paciente_id f);
        fec = strip (form_get (form_fecha f) []);
        hor = strip (form_get (form_hora f) []);
        matches = (\<exists>(i, a) \<in> set (appointments s).
                     lower (strip (medico a)) = lower (strip (form_get (form_medico f) []))
                     \<and> fecha a = fec \<and> hora a = hor)
    in (\<not> contains (patients s) pac \<longrightarrow>
          create_appointment s f = (Inl InvalidPatientError, s))
     \<and> (contains (patients s) pac \<and> parse_datetime fec hor = None \<longrightarrow>
          create_appointment s f = (Inl InvalidDateTimeError, s))
     \<and> (contains (patients s) pac \<and> parse_datetime fec hor \<noteq> None
          \<and> strip (form_get (form_medico f) []) = [] \<longrightarrow>
          create_appointment s f = (Inl MissingDoctorError, s))
     \<and> (contains (patients s) pac \<and> parse_datetime fec hor \<noteq> None
          \<and> strip (form_get (form_medico f) []) \<noteq> [] \<and> matches \<longrightarrow>
          create_appointment s f = (Inl ConflictError, s))
     \<and> (contains (patients s) pac \<and> parse_datetime fec hor \<noteq> None
          \<and> strip (form_get (form_medico f) []) \<noteq> [] \<and> \<not> matches \<longrightarrow>
          fst (create_appointment s f) = Inr (aid_counter s)))
   \<and> (\<forall>e. fst (create_appointment s f) = Inl e \<longrightarrow> snd (create_appointment s f) = s)"
  by (auto simp: create_appointment_def Let_def has_conflict_iff strip_strip)

theorem create_appointment_validation_order_witness:
  "\<not> contains (patients sample_state)
       (coerce_paciente_id (form_paciente_id (sample_form ''9'' ''2025-03-10'' ''09:00'' ''Dr. Lopez'')))
   \<and> create_appointment sample_state (sample_form ''9'' ''2025-03-10'' ''09:00'' ''Dr. Lopez'')
       = (Inl InvalidPatientError, sample_state)
   \<and> create_appointment sample_state (sample_form ''1'' ''2025-02-30'' ''09:00'' ''Dr. Lopez'')
       = (Inl InvalidDateTimeError, sample_state)
   \<and> create_appointment sample_state (sample_form ''1'' ''2025-03-10'' ''09:00'' ''   '')
       = (Inl MissingDoctorError, sample_state)
   \<and> create_appointment sample_state (sample_form ''1'' ''2025-03-10'' ''09:00'' ''  dr. LOPEZ '')
       = (Inl ConflictError, sample_state)
   \<and> fst (create_appointment sample_state (sample_form ''1'' ''2025-03-11'' ''09:00'' ''Dr. Lopez''))
       = Inr 4
   \<and> create_appointment sample_state
        (sample_form oversize_numeral ''2025-03-11'' ''09:00'' ''Dr. Lopez'')
       = (Inl InvalidPatientError, sample_state)"
proof -
  let ?f6 = "sample_form oversize_numeral ''2025-03-11'' ''09:00'' ''Dr. Lopez''"
  have c6: "coerce_paciente_id (form_paciente_id ?f6) = 0"
    by (simp add: coerce_paciente_id_def form_get_def sample_form_def py_int_oversize)
  have p6: "\<not> contains (patients sample_state) (coerce_paciente_id (form_paciente_id ?f6))"
    unfolding c6 by (simp add: sample_state_def contains_def)
  have r6: "create_appointment sample_state ?f6 = (Inl InvalidPatientError, sample_state)"
    using create_appointment_validation_order[of ?f6 sample_state] p6
    unfolding Let_def by blast
  let ?f1 = "sample_form ''9'' ''2025-03-10'' ''09:00'' ''Dr. Lopez''"
  let ?f2 = "sample_form ''1'' ''2025-02-30'' ''09:00'' ''Dr. Lopez''"
  let ?f3 = "sample_form ''1'' ''2025-03-10'' ''09:00'' ''   ''"
  let ?f4 = "sample_form ''1'' ''2025-03-10'' ''09:00'' ''  dr. LOPEZ ''"
  let ?f5 = "sample_form ''1'' ''2025-03-11'' ''09:00'' ''Dr. Lopez''"
  have p1: "\<not> contains (patients sample_state) (coerce_paciente_id (form_paciente_id ?f1))"
    by code_simp
  have p2: "contains (patients sample_state) (coerce_paciente_id (form_paciente_id ?f2))"
    by code_simp
  have p3: "contains (patients sample_state) (coerce_paciente_id (form_paciente_id ?f3))"
    by code_simp
  have p4: "contains (patients sample_state) (coerce_paciente_id (form_paciente_id ?f4))"
    by code_simp
  have p5: "contains (patients sample_state) (coerce_paciente_id (form_paciente_id ?f5))"
    by code_simp
  have d2: "parse_datetime (strip (form_get (form_fecha ?f2) [])) (strip (form_get (form_hora ?f2) [])) = None"
    by code_simp
  have d3: "parse_datetime (strip (form_get (form_fecha ?f3) [])) (strip (form_get (form_hora ?f3) [])) \<noteq> None"
    by code_simp
  have d4: "parse_datetime (strip (form_get (form_fecha ?f4) [])) (strip (form_get (form_hora ?f4) [])) \<noteq> None"
    by code_simp
  have d5: "parse_datetime (strip (form_get (form_fecha ?f5) [])) (strip (form_get (form_hora ?f5) [])) \<noteq> None"
    by code_simp
  have m3: "strip (form_get (form_medico ?f3) []) = []" by code_simp
  have m4: "strip (form_get (form_medico ?f4) []) \<noteq> []" by code_simp
  have m5: "strip (form_get (form_medico ?f5) []) \<noteq> []" by code_simp
  have c4: "\<exists>(i, a) \<in> set (appointments sample_state).
      lower (strip (medico a)) = lower (strip (form_get (form_medico ?f4) []))
      \<and> fecha a = strip (form_get (form_fecha ?f4) [])
      \<and> hora a = strip (form_get (form_hora ?f4) [])"
    by code_simp
  have c5: "\<not> (\<exists>(i, a) \<in> set (appointments sample_state).
      lower (strip (medico a)) = lower (strip (form_get (form_medico ?f5) []))
      \<and> fecha a = strip (form_get (form_fecha ?f5) [])
      \<and> hora a = strip (form_get (form_hora ?f5) []))"
    by code_simp
  have a: "aid_counter sample_state = 4" by (simp add: sample_state_def)
  have r1: "create_appointment sample_state ?f1 = (Inl InvalidPatientError, sample_state)"
    using create_appointment_validation_order[of ?f1 sample_state] p1
    unfolding Let_def by blast
  have r2: "create_appointment sample_state ?f2 = (Inl InvalidDateTimeError, sample_state)"
    using create_appointment_validation_order[of ?f2 sample_state] p2 d2
    unfolding Let_def by blast
  have r3: "create_appointment sample_state ?f3 = (Inl MissingDoctorError, sample_state)"
    using create_appointment_validation_order[of ?f3 sample_state] p3 d3 m3
    unfolding Let_def by blast
  have r4: "create_appointment sample_state ?f4 = (Inl ConflictError, sample_state)"
    using create_appointment_validation_order[of ?f4 sample_state] p4 d4 m4 c4
    unfolding Let_def by blast
  have r5: "fst (create_appointment sample_state ?f5) = Inr (aid_counter sample_state)"
    using create_appointment_validation_order[of ?f5 sample_state] p5 d5 m5 c5
    unfolding Let_def by blast
  from p1 r1 r2 r3 r4 r5 r6 a show ?thesis by simp
qed

section \<open>Listing in chronological order\<close>



section \<open>Cancelling\<close>

text \<open>
  Claim C4.  For every state and identifier, \<^verbatim>\<open>cancel_appointment\<close> on a stored
  identifier reports success and removes that record and nothing else: the other
  appointments keep their order, the patients and both counters are unchanged, the
  identifier is no longer a key and no later listing shows it; with distinct keys, as
  in a dictionary, exactly one record leaves the store.  On an identifier that is not
  stored it reports \<open>NotFoundError\<close> and returns the state as it was.
\<close>

theorem cancel_appointment_removes_exactly:
  "(contains (appointments s) i \<longrightarrow>
      fst (cancel_appointment s i) = Inr ()
      \<and> appointments (snd (cancel_appointment s i)) = filter (\<lambda>(k, a). k \<noteq> i) (appointments s)
      \<and> (distinct (map fst (appointments s)) \<longrightarrow>
           (\<exists>a. mset (appointments s) = add_mset (i, a) (mset (appointments (snd (cancel_appointment s i))))))
      \<and> patients (snd (cancel_appointment s i)) = patients s
      \<and> pid_counter (snd (cancel_appointment s i)) = pid_counter s
      \<and> aid_counter (snd (cancel_appointment s i)) = aid_counter s
      \<and> \<not> contains (appointments (snd (cancel_appointment s i))) i
      \<and> (\<forall>m ys. home (snd (cancel_appointment s i)) m = Some ys \<longrightarrow> i \<notin> set (map fst ys)))
   \<and> (\<not> contains (appointments s) i \<longrightarrow> cancel_appointment s i = (Inl NotFoundError, s))"
proof (cases "contains (appointments s) i")
  case False
  then show ?thesis by (simp add: cancel_appointment_def)
next
  case True
  let ?s' = "snd (cancel_appointment s i)"
  have ap: "appointments ?s' = AList.delete i (appointments s)"
    using True by (simp add: cancel_appointment_def)
  have nc: "\<not> contains (appointments ?s') i"
    unfolding ap by (rule not_contains_delete)
  have listing: "\<forall>m ys. home ?s' m = Some ys \<longrightarrow> i \<notin> set (map fst ys)"
    using home_no_key[OF _ nc] by blast
  have ms: "distinct (map fst (appointments s)) \<longrightarrow>
      (\<exists>a. mset (appointments s) = add_mset (i, a) (mset (appointments ?s')))"
  proof
    assume d: "distinct (map fst (appointments s))"
    from True obtain a where "(i, a) \<in> set (appointments s)"
      by (auto simp: contains_def)
    from delete_distinct_mset[OF d this]
    show "\<exists>a. mset (appointments s) = add_mset (i, a) (mset (appointments ?s'))"
      unfolding ap by blast
  qed
  have flt: "appointments ?s' = filter (\<lambda>(k, a). k \<noteq> i) (appointments s)"
    unfolding ap by (rule delete_filter)
  have rest: "fst (cancel_appointment s i) = Inr () \<and> patients ?s' = patients s
      \<and> pid_counter ?s' = pid_counter s \<and> aid_counter ?s' = aid_counter s"
    using True by (simp add: cancel_appointment_def)
  from True rest flt ms nc listing show ?thesis by blast
qed

theorem cancel_appointment_removes_exactly_witness:
  "contains (appointments sample_state) 2
   \<and> distinct (map fst (appointments sample_state))
   \<and> fst (cancel_appointment sample_state 2) = Inr ()
   \<and> map fst (appointments (snd (cancel_appointment sample_state 2))) = [1, 3]
   \<and> (\<exists>a. mset (appointments sample_state)
          = add_mset (2, a) (mset (appointments (snd (cancel_appointment sample_state 2)))))
   \<and> home (snd (cancel_appointment sample_state 2)) None \<noteq> None
   \<and> 2 \<notin> set (map fst (the (home (snd (cancel_appointment sample_state 2)) None)))
   \<and> \<not> contains (appointments sample_state) 7
   \<and> cancel_appointment sample_state 7 = (Inl NotFoundError, sample_state)"
proof -
  have h1: "contains (appointments sample_state) 2"
    by (simp add: sample_state_def contains_def)
  have h2: "distinct (map fst (appointments sample_state))"
    by (simp add: sample_state_def)
  have h3: "\<not> contains (appointments sample_state) 7"
    by (simp add: sample_state_def contains_def)
  have h4: "home (snd (cancel_appointment sample_state 2)) None \<noteq> None"
    by code_simp
  have h5: "map fst (filter (\<lambda>(k, a). k \<noteq> 2) (appointments sample_state)) = [1, 3]"
    by (simp add: sample_state_def)
  from cancel_appointment_removes_exactly[of sample_state 2] h1 h2 h4 h5
  have "fst (cancel_appointment sample_state 2) = Inr ()
    \<and> map fst (appointments (snd (cancel_appointment sample_state 2))) = [1, 3]
    \<and> (\<exists>a. mset (appointments sample_state)
          = add_mset (2, a) (mset (appointments (snd (cancel_appointment sample_state 2)))))
    \<and> 2 \<notin> set (map fst (the (home (snd (cancel_appointment sample_state 2)) None)))"
    by force
  moreover from cancel_appointment_removes_exactly[of sample_state 7] h3
  have "cancel_appointment sample_state 7 = (Inl NotFoundError, sample_state)"
    by blast
  ultimately show ?thesis using h1 h2 h3 h4 by blast
qed

section \<open>Registering a patient\<close>

text \<open>
  Claim C5.  \<^verbatim>\<open>create_patient\<close> reports \<open>ValidationError\<close> when one of the four fields
  is empty after trimming (a missing field counts as empty); otherwise
  \<open>DuplicateDocumentError\<close> when a stored patient's document equals the given one after
  trimming and lower-casing both; otherwise it returns the value of the patient counter
  as the new identifier, advances the counter by one and stores the trimmed fields
  under that identifier, leaving the appointments alone.  The two errors leave the
  state unchanged.
\<close>

theorem create_patient_validation:
  "(let nom = strip (form_get (form_nombre f) []);
        doc = strip (form_get (form_documento f) []);
        tel = strip (form_get (form_telefono f) []);
        cor = strip (form_get (form_correo f) []);
        duplicate = (\<exists>(i, p) \<in> set (patients s).
                       lower (strip (documento p)) = lower (strip (form_get (form_documento f) [])))
    in (nom = [] \<or> doc = [] \<or> tel = [] \<or> cor = [] \<longrightarrow>
          create_patient s f = (Inl ValidationError, s))
     \<and> (nom \<noteq> [] \<and> doc \<noteq> [] \<and> tel \<noteq> [] \<and> cor \<noteq> [] \<and> duplicate \<longrightarrow>
          create_patient s f = (Inl DuplicateDocumentError, s))
     \<and> (nom \<noteq> [] \<and> doc \<noteq> [] \<and> tel \<noteq> [] \<and> cor \<noteq> [] \<and> \<not> duplicate \<longrightarrow>
          fst (create_patient s f) = Inr (pid_counter s)
          \<and> pid_counter (snd (create_patient s f)) = pid_counter s + 1
          \<and> map_of (patients (snd (create_patient s f)))
              = (map_of (patients s))
                  (pid_counter s \<mapsto> \<lparr>nombre = nom, documento = doc, telefono = tel, correo = cor\<rparr>)
          \<and> appointments (snd (create_patient s f)) = appointments s
          \<and> aid_counter (snd (create_patient s f)) = aid_counter s))"
  by (auto simp: create_patient_def Let_def document_exists_iff update_conv')

theorem create_patient_validation_witness:
  "create_patient sample_state (sample_patient_form ''Luis Mora'' ''CC-1003'' ''  '' ''luis@example.com'')
     = (Inl ValidationError, sample_state)
   \<and> create_patient sample_state (sample_patient_form ''Ana R.'' ''  cc-1002 '' ''3000000009'' ''ana@example.com'')
     = (Inl DuplicateDocumentError, sample_state)
   \<and> fst (create_patient sample_state
            (sample_patient_form ''Luis Mora'' '' CC-1003 '' ''3000000003'' ''luis@example.com''))
     = Inr 2
   \<and> map_of (patients (snd (create_patient sample_state
            (sample_patient_form ''Luis Mora'' '' CC-1003 '' ''3000000003'' ''luis@example.com'')))) 2
     = Some \<lparr>nombre = ''Luis Mora'', documento = ''CC-1003'', telefono = ''3000000003'',
             correo = ''luis@example.com''\<rparr>"
proof -
  let ?f1 = "sample_patient_form ''Luis Mora'' ''CC-1003'' ''  '' ''luis@example.com''"
  let ?f2 = "sample_patient_form ''Ana R.'' ''  cc-1002 '' ''3000000009'' ''ana@example.com''"
  let ?f3 = "sample_patient_form ''Luis Mora'' '' CC-1003 '' ''3000000003'' ''luis@example.com''"
  have e1: "strip (form_get (form_telefono ?f1) []) = []" by code_simp
  have n2: "strip (form_get (form_nombre ?f2) []) \<noteq> [] \<and> strip (form_get (form_documento ?f2) []) \<noteq> []
      \<and> strip (form_get (form_telefono ?f2) []) \<noteq> [] \<and> strip (form_get (form_correo ?f2) []) \<noteq> []"
    by code_simp
  have d2: "\<exists>(i, p) \<in> set (patients sample_state).
      lower (strip (documento p)) = lower (strip (form_get (form_documento ?f2) []))"
    by code_simp
  have n3: "strip (form_get (form_nombre ?f3) []) \<noteq> [] \<and> strip (form_get (form_documento ?f3) []) \<noteq> []
      \<and> strip (form_get (form_telefono ?f3) []) \<noteq> [] \<and> strip (form_get (form_correo ?f3) []) \<noteq> []"
    by code_simp
  have d3: "\<not> (\<exists>(i, p) \<in> set (patients sample_state).
      lower (strip (documento p)) = lower (strip (form_get (form_documento ?f3) [])))"
    by code_simp
  have v3: "strip (form_get (form_nombre ?f3) []) = ''Luis Mora''
      \<and> strip (form_get (form_documento ?f3) []) = ''CC-1003''
      \<and> strip (form_get (form_telefono ?f3) []) = ''3000000003''
      \<and> strip (form_get (form_correo ?f3) []) = ''luis@example.com''"
    by code_simp
  have c: "pid_counter sample_state = 2" by (simp add: sample_state_def)
  have r1: "create_patient sample_state ?f1 = (Inl ValidationError, sample_state)"
    using create_patient_validation[of ?f1 sample_state] e1 unfolding Let_def by blast
  have r2: "create_patient sample_state ?f2 = (Inl DuplicateDocumentError, sample_state)"
    using create_patient_validation[of ?f2 sample_state] n2 d2 unfolding Let_def by blast
  have r3: "fst (create_patient sample_state ?f3) = Inr (pid_counter sample_state)
      \<and> map_of (patients (snd (create_patient sample_state ?f3)))
          = (map_of (patients sample_state))
              (pid_counter sample_state \<mapsto>
                 \<lparr>nombre = strip (form_get (form_nombre ?f3) []),
                  documento = strip (form_get (form_documento ?f3) []),
                  telefono = strip (form_get (form_telefono ?f3) []),
                  correo = strip (form_get (form_correo ?f3) [])\<rparr>)"
    using create_patient_validation[of ?f3 sample_state] n3 d3 unfolding Let_def by blast
  from r1 r2 r3 show ?thesis by (simp add: c v3)
qed

section \<open>Sequential identifiers\<close>

text \<open>
  Claim C6.  Both counters start at 1.  Along every run from the empty stores the
  patient identifiers handed out, in order, are 1, 2, ... up to the patient counter
  minus one, and the appointment identifiers likewise: each one is greater than all
  earlier ones of its kind and none is handed out twice, whatever was cancelled in
  between.  A successful creation returns the counter and advances it by one and leaves
  the other counter alone; a refused creation and a cancellation leave both counters
  unchanged.
\<close>

theorem identifiers_sequential:
  "pid_counter init_state = 1 \<and> aid_counter init_state = 1
   \<and> concat (map patient_ids (trace init_state ops)) = [1..pid_counter (exec init_state ops) - 1]
   \<and> concat (map appointment_ids (trace init_state ops)) = [1..aid_counter (exec init_state ops) - 1]
   \<and> sorted_wrt (<) (concat (map patient_ids (trace init_state ops)))
   \<and> sorted_wrt (<) (concat (map appointment_ids (trace init_state ops)))
   \<and> (\<forall>s f i. fst (create_patient s f) = Inr i \<longrightarrow>
         i = pid_counter s \<and> pid_counter (snd (create_patient s f)) = i + 1
         \<and> aid_counter (snd (create_patient s f)) = aid_counter s)
   \<and> (\<forall>s f i. fst (create_appointment s f) = Inr i \<longrightarrow>
         i = aid_counter s \<and> aid_counter (snd (create_appointment s f)) = i + 1
         \<and> pid_counter (snd (create_appointment s f)) = pid_counter s)
   \<and> (\<forall>s f e. fst (create_patient s f) = Inl e \<longrightarrow>
         pid_counter (snd (create_patient s f)) = pid_counter s
         \<and> aid_counter (snd (create_patient s f)) = aid_counter s)
   \<and> (\<forall>s f e. fst (create_appointment s f) = Inl e \<longrightarrow>
         pid_counter (snd (create_appointment s f)) = pid_counter s
         \<and> aid_counter (snd (create_appointment s f)) = aid_counter s)
   \<and> (\<forall>s i. pid_counter (snd (cancel_appointment s i)) = pid_counter s
         \<and> aid_counter (snd (cancel_appointment s i)) = aid_counter s)"
proof -
  have i: "pid_counter init_state = 1 \<and> aid_counter init_state = 1"
    by (simp add: init_state_def)
  have p: "concat (map patient_ids (trace init_state ops)) = [1..pid_counter (exec init_state ops) - 1]"
    using trace_patient_ids[of init_state ops] by (simp add: i)
  have a: "concat (map appointment_ids (trace init_state ops)) = [1..aid_counter (exec init_state ops) - 1]"
    using trace_appointment_ids[of init_state ops] by (simp add: i)
  have sp: "sorted_wrt (<) (concat (map patient_ids (trace init_state ops)))"
    unfolding p by (rule sorted_wrt_upto)
  have sa: "sorted_wrt (<) (concat (map appointment_ids (trace init_state ops)))"
    unfolding a by (rule sorted_wrt_upto)
  have cp: "\<forall>s f i. fst (create_patient s f) = Inr i \<longrightarrow>
         i = pid_counter s \<and> pid_counter (snd (create_patient s f)) = i + 1
         \<and> aid_counter (snd (create_patient s f)) = aid_counter s"
    by (auto simp: create_patient_def Let_def split: if_splits)
  have ca: "\<forall>s f i. fst (create_appointment s f) = Inr i \<longrightarrow>
         i = aid_counter s \<and> aid_counter (snd (create_appointment s f)) = i + 1
         \<and> pid_counter (snd (create_appointment s f)) = pid_counter s"
    by (auto simp: create_appointment_def Let_def split: if_splits)
  have fp: "\<forall>s f e. fst (create_patient s f) = Inl e \<longrightarrow>
         pid_counter (snd (create_patient s f)) = pid_counter s
         \<and> aid_counter (snd (create_patient s f)) = aid_counter s"
    by (auto simp: create_patient_def Let_def split: if_splits)
  have fa: "\<forall>s f e. fst (create_appointment s f) = Inl e \<longrightarrow>
         pid_counter (snd (create_appointment s f)) = pid_counter s
         \<and> aid_counter (snd (create_appointment s f)) = aid_counter s"
    by (auto simp: create_appointment_def Let_def split: if_splits)
  have cc: "\<forall>s i. pid_counter (snd (cancel_appointment s i)) = pid_counter s
         \<and> aid_counter (snd (cancel_appointment s i)) = aid_counter s"
    by (simp add: cancel_appointment_def)
  from i p a sp sa cp ca fp fa cc show ?thesis by blast
qed

theorem identifiers_sequential_witness:
  "concat (map patient_ids (trace init_state (sample_ops @ [Cancel 1,
       Book (sample_form ''1'' ''2025-03-10'' ''09:00'' ''Dr. Lopez'')]))) = [1, 2]
   \<and> concat (map appointment_ids (trace init_state (sample_ops @ [Cancel 1,
       Book (sample_form ''1'' ''2025-03-10'' ''09:00'' ''Dr. Lopez'')]))) = [1, 2, 3]
   \<and> fst (create_appointment sample_state (sample_form ''1'' ''2025-03-11'' ''09:00'' ''Dr. Lopez''))
       = Inr 4
   \<and> aid_counter (snd (create_appointment sample_state
        (sample_form ''1'' ''2025-03-11'' ''09:00'' ''Dr. Lopez''))) = 4 + 1
   \<and> fst (create_appointment sample_state (sample_form ''1'' ''2025-03-10'' ''09:00'' ''dr. lopez''))
       = Inl ConflictError
   \<and> aid_counter (snd (create_appointment sample_state
        (sample_form ''1'' ''2025-03-10'' ''09:00'' ''dr. lopez''))) = aid_counter sample_state"
proof -
  let ?ops = "sample_ops @ [Cancel 1, Book (sample_form ''1'' ''2025-03-10'' ''09:00'' ''Dr. Lopez'')]"
  let ?ok = "sample_form ''1'' ''2025-03-11'' ''09:00'' ''Dr. Lopez''"
  let ?no = "sample_form ''1'' ''2025-03-10'' ''09:00'' ''dr. lopez''"
  have c: "pid_counter (exec init_state ?ops) = 3 \<and> aid_counter (exec init_state ?ops) = 4"
    by code_simp
  have u: "[1..3 - 1] = [1, 2::int] \<and> [1..4 - 1] = [1, 2, 3::int]"
    by (simp add: upto_rec1)
  have ok: "fst (create_appointment sample_state ?ok) = Inr 4" by code_simp
  have no: "fst (create_appointment sample_state ?no) = Inl ConflictError" by code_simp
  note T = identifiers_sequential[of ?ops]
  from T c u have "concat (map patient_ids (trace init_state ?ops)) = [1, 2]
      \<and> concat (map appointment_ids (trace init_state ?ops)) = [1, 2, 3]"
    by simp
  moreover from T ok have "aid_counter (snd (create_appointment sample_state ?ok)) = 4 + 1"
    by blast
  moreover from T no
  have "aid_counter (snd (create_appointment sample_state ?no)) = aid_counter sample_state"
    by blast
  ultimately show ?thesis using ok no by blast
qed

section \<open>The status of an appointment\<close>

text \<open>
  Claim C7 names the status value \<open>Scheduled\<close>.  The record that \<^verbatim>\<open>create_appointment\<close>
  stores has \<^verbatim>\<open>"estado": "Programada"\<close>: the first booking of the sample run succeeds
  with identifier 1 and the status stored under 1 is not the string \<open>Scheduled\<close>.
\<close>

theorem estado_scheduled_counterexample:
  "trace init_state sample_ops ! 1 = Booked (Inr 1)
   \<and> map_option estado (map_of (appointments (exec init_state sample_ops)) 1) = Some ''Programada''
   \<and> map_option estado (map_of (appointments (exec init_state sample_ops)) 1) \<noteq> Some ''Scheduled''"
  by (simp add: sample_trace sample_appointments sample_appointment_def)

text \<open>
  Claim C7, amended.  Every record stored by a successful \<^verbatim>\<open>create_appointment\<close> has
  status \<open>Programada\<close>; in the state after any run from the empty stores every stored
  appointment has that status; and no operation changes the status of an appointment
  that stays in the store.
\<close>

theorem estado_programada:
  "(\<forall>s f i. fst (create_appointment s f) = Inr i \<longrightarrow>
       map_option estado (map_of (appointments (snd (create_appointment s f))) i) = Some ''Programada'')
   \<and> (\<forall>(i, a) \<in> set (appointments (exec init_state ops)). estado a = ''Programada'')
   \<and> (\<forall>x i a a'.
        map_of (appointments (exec init_state ops)) i = Some a
        \<and> map_of (appointments (snd (step (exec init_state ops) x))) i = Some a'
        \<longrightarrow> estado a' = estado a)"
proof -
  have 1: "\<forall>s f i. fst (create_appointment s f) = Inr i \<longrightarrow>
       map_option estado (map_of (appointments (snd (create_appointment s f))) i) = Some ''Programada''"
    by (auto simp: create_appointment_def Let_def update_conv' split: if_splits)
  have 2: "\<forall>(i, a) \<in> set (appointments (exec init_state ops)). estado a = ''Programada''"
    using all_programada_exec[of ops] by (auto simp: all_programada_def list_all_iff)
  have 3: "\<forall>x i a a'.
        map_of (appointments (exec init_state ops)) i = Some a
        \<and> map_of (appointments (snd (step (exec init_state ops) x))) i = Some a'
        \<longrightarrow> estado a' = estado a"
    using step_keeps_records[OF ids_ok_exec] by blast
  from 1 2 3 show ?thesis by blast
qed

theorem estado_programada_witness:
  "fst (create_appointment sample_state (sample_form ''1'' ''2025-03-11'' ''09:00'' ''Dr. Lopez'')) = Inr 4
   \<and> map_option estado (map_of (appointments (snd (create_appointment sample_state
        (sample_form ''1'' ''2025-03-11'' ''09:00'' ''Dr. Lopez'')))) 4) = Some ''Programada''
   \<and> (2, sample_appointment ''2025-03-10'' ''08:00'' ''Dr. Lopez'')
        \<in> set (appointments (exec init_state sample_ops))
   \<and> estado (sample_appointment ''2025-03-10'' ''08:00'' ''Dr. Lopez'') = ''Programada''
   \<and> map_of (appointments (exec init_state sample_ops)) 2
        = Some (sample_appointment ''2025-03-10'' ''08:00'' ''Dr. Lopez'')
   \<and> map_of (appointments (snd (step (exec init_state sample_ops) (Cancel 1)))) 2
        = Some (sample_appointment ''2025-03-10'' ''08:00'' ''Dr. Lopez'')
   \<and> estado (the (map_of (appointments (snd (step (exec init_state sample_ops) (Cancel 1)))) 2))
        = estado (the (map_of (appointments (exec init_state sample_ops)) 2))"
proof -
  let ?ok = "sample_form ''1'' ''2025-03-11'' ''09:00'' ''Dr. Lopez''"
  let ?a2 = "sample_appointment ''2025-03-10'' ''08:00'' ''Dr. Lopez''"
  have ok: "fst (create_appointment sample_state ?ok) = Inr 4" by code_simp
  have m: "(2, ?a2) \<in> set (appointments (exec init_state sample_ops))"
    by (simp add: sample_appointments)
  have l: "map_of (appointments (exec init_state sample_ops)) 2 = Some ?a2"
    by (simp add: sample_appointments)
  note T = estado_programada[of sample_ops]
  from T ok have 1: "map_option estado (map_of (appointments (snd (create_appointment sample_state ?ok))) 4)
      = Some ''Programada''"
    by blast
  from T m have 2: "estado ?a2 = ''Programada''" by blast
  have l': "map_of (appointments (snd (step (exec init_state sample_ops) (Cancel 1)))) 2 = Some ?a2"
    by (simp add: sample_appointments cancel_appointment_def contains_def)
  from l l' have 3: "estado (the (map_of (appointments (snd (step (exec init_state sample_ops) (Cancel 1)))) 2))
        = estado (the (map_of (appointments (exec init_state sample_ops)) 2))"
    by simp
  from ok 1 m 2 l l' 3 show ?thesis by blast
qed

section \<open>Listing for one doctor\<close>




section \<open>Stored dates always parse\<close>

text \<open>
  Claim C9.  In the state after any run from the empty stores, \<^const>\<open>parse_datetime\<close>
  accepts the stored date and time of every appointment, because a booking succeeds
  only after it accepted them; hence the sort key of every stored item is defined and
  neither \<^verbatim>\<open>upcoming_sorted\<close> nor the listing \<^verbatim>\<open>home\<close> raises.
\<close>

theorem stored_dates_parse:
  "all_parse (appointments (exec init_state ops))
   \<and> (\<forall>(i, a) \<in> set (appointments (exec init_state ops)). parse_datetime (fecha a) (hora a) \<noteq> None)
   \<and> upcoming_sorted (appointments (exec init_state ops)) \<noteq> None
   \<and> (\<forall>m. home (exec init_state ops) m \<noteq> None)
   \<and> (\<forall>s f i. fst (create_appointment s f) = Inr i \<longrightarrow>
         parse_datetime (strip (form_get (form_fecha f) [])) (strip (form_get (form_hora f) [])) \<noteq> None)"
proof -
  let ?s = "exec init_state ops"
  have 1: "all_parse (appointments ?s)" by (rule all_parse_exec)
  then have 2: "\<forall>(i, a) \<in> set (appointments ?s). parse_datetime (fecha a) (hora a) \<noteq> None"
    by (auto simp: all_parse_def list_all_iff keyfun_def)
  from 1 have 3: "upcoming_sorted (appointments ?s) \<noteq> None"
    by (simp add: upcoming_sorted_Some)
  from 1 have 4: "\<forall>m. home ?s m \<noteq> None"
    by (simp add: home_def Let_def upcoming_sorted_Some)
  have 5: "\<forall>s f i. fst (create_appointment s f) = Inr i \<longrightarrow>
         parse_datetime (strip (form_get (form_fecha f) [])) (strip (form_get (form_hora f) [])) \<noteq> None"
    by (auto simp: create_appointment_def Let_def split: if_splits)
  from 1 2 3 4 5 show ?thesis by blast
qed

theorem stored_dates_parse_witness:
  "(1, sample_appointment ''2025-03-10'' ''09:00'' ''Dr. Lopez'')
     \<in> set (appointments (exec init_state sample_ops))
   \<and> parse_datetime (fecha (sample_appointment ''2025-03-10'' ''09:00'' ''Dr. Lopez''))
       (hora (sample_appointment ''2025-03-10'' ''09:00'' ''Dr. Lopez'')) \<noteq> None
   \<and> home (exec init_state sample_ops) None \<noteq> None
   \<and> fst (create_appointment sample_state (sample_form ''1'' ''2025-03-11'' ''09:00'' ''Dr. Lopez'')) = Inr 4
   \<and> parse_datetime
       (strip (form_get (form_fecha (sample_form ''1'' ''2025-03-11'' ''09:00'' ''Dr. Lopez'')) []))
       (strip (form_get (form_hora (sample_form ''1'' ''2025-03-11'' ''09:00'' ''Dr. Lopez'')) []))
       \<noteq> None"
proof -
  let ?ok = "sample_form ''1'' ''2025-03-11'' ''09:00'' ''Dr. Lopez''"
  have m: "(1, sample_appointment ''2025-03-10'' ''09:00'' ''Dr. Lopez'')
      \<in> set (appointments (exec init_state sample_ops))"
    by (simp add: sample_appointments)
  have ok: "fst (create_appointment sample_state ?ok) = Inr 4" by code_simp
  note T = stored_dates_parse[of sample_ops]
  from T m have 1: "parse_datetime (fecha (sample_appointment ''2025-03-10'' ''09:00'' ''Dr. Lopez''))
       (hora (sample_appointment ''2025-03-10'' ''09:00'' ''Dr. Lopez'')) \<noteq> None"
    by blast
  from T have 2: "home (exec init_state sample_ops) None \<noteq> None" by blast
  from T ok have 3: "parse_datetime (strip (form_get (form_fecha ?ok) [])) (strip (form_get (form_hora ?ok) []))
       \<noteq> None"
    by blast
  from m 1 2 ok 3 show ?thesis by blast
qed

section \<open>A patient identifier that is not a number\<close>

text \<open>
  Claim C10.  When the form carries no \<^verbatim>\<open>paciente_id\<close>, or carries one that \<^verbatim>\<open>int\<close>
  rejects (not a decimal literal, or one with more digits than the interpreter
  converts), the handler takes the identifier to be 0.  In the state after any run from
  the empty stores 0 is not a patient identifier, so \<^verbatim>\<open>create_appointment\<close> returns,
  reports \<open>InvalidPatientError\<close> and leaves the state unchanged.
\<close>

theorem create_appointment_bad_patient_id:
  "form_paciente_id f = None \<or> (\<exists>raw. form_paciente_id f = Some raw \<and> py_int raw = None) \<longrightarrow>
     coerce_paciente_id (form_paciente_id f) = 0
     \<and> \<not> contains (patients (exec init_state ops)) 0
     \<and> create_appointment (exec init_state ops) f = (Inl InvalidPatientError, exec init_state ops)"
proof
  assume a: "form_paciente_id f = None \<or> (\<exists>raw. form_paciente_id f = Some raw \<and> py_int raw = None)"
  then have c: "coerce_paciente_id (form_paciente_id f) = 0"
    by (auto simp: coerce_paciente_id_def form_get_def py_int_zero)
  have n: "\<not> contains (patients (exec init_state ops)) 0"
    using ids_ok_exec[of ops] unfolding ids_ok_def by (blast dest: not_contains_zero)
  from c n show "coerce_paciente_id (form_paciente_id f) = 0
     \<and> \<not> contains (patients (exec init_state ops)) 0
     \<and> create_appointment (exec init_state ops) f = (Inl InvalidPatientError, exec init_state ops)"
    by (simp add: create_appointment_def)
qed

theorem create_appointment_bad_patient_id_witness:
  "py_int ''1a'' = None
   \<and> create_appointment (exec init_state sample_ops)
        (sample_form ''1a'' ''2025-03-12'' ''09:00'' ''Dr. Lopez'')
       = (Inl InvalidPatientError, exec init_state sample_ops)
   \<and> create_appointment (exec init_state sample_ops)
        \<lparr>form_paciente_id = None, form_fecha = Some ''2025-03-12'', form_hora = Some ''09:00'',
         form_medico = Some ''Dr. Lopez''\<rparr>
       = (Inl InvalidPatientError, exec init_state sample_ops)
   \<and> py_int oversize_numeral = None
   \<and> create_appointment (exec init_state sample_ops)
        (sample_form oversize_numeral ''2025-03-12'' ''09:00'' ''Dr. Lopez'')
       = (Inl InvalidPatientError, exec init_state sample_ops)"
proof -
  let ?h = "sample_form oversize_numeral ''2025-03-12'' ''09:00'' ''Dr. Lopez''"
  have q: "py_int oversize_numeral = None" by (rule py_int_oversize)
  have h: "form_paciente_id ?h = Some oversize_numeral"
    by (simp add: sample_form_def)
  from create_appointment_bad_patient_id[of ?h sample_ops] h q
  have 3: "create_appointment (exec init_state sample_ops) ?h
      = (Inl InvalidPatientError, exec init_state sample_ops)"
    by blast
  let ?f = "sample_form ''1a'' ''2025-03-12'' ''09:00'' ''Dr. Lopez''"
  let ?g = "\<lparr>form_paciente_id = None, form_fecha = Some ''2025-03-12'', form_hora = Some ''09:00'',
         form_medico = Some ''Dr. Lopez''\<rparr>"
  have p: "py_int ''1a'' = None" by code_simp
  have f: "form_paciente_id ?f = Some ''1a''" by (simp add: sample_form_def)
  have g: "form_paciente_id ?g = None" by simp
  from create_appointment_bad_patient_id[of ?f sample_ops] f p
  have 1: "create_appointment (exec init_state sample_ops) ?f
      = (Inl InvalidPatientError, exec init_state sample_ops)"
    by blast
  from create_appointment_bad_patient_id[of ?g sample_ops] g
  have 2: "create_appointment (exec init_state sample_ops) ?g
      = (Inl InvalidPatientError, exec init_state sample_ops)"
    by blast
  from p 1 2 q 3 show ?thesis by blast
qed

end
